theory Spec2Isabelle
  imports Main "HOL-Library.Sublist"
begin

section \<open>photo\_watermark: a shallow embedding of \<^verbatim>\<open>watermark.py\<close>\<close>

text \<open>
  Python's unbounded integers are \<^typ>\<open>int\<close>, its strings are \<^typ>\<open>string\<close>, an
  exception is the left summand of a sum type and carries its message. The behaviour of
  the libraries the program calls (Pillow, \<^verbatim>\<open>pathlib\<close>, \<^verbatim>\<open>datetime\<close>, \<^verbatim>\<open>os\<close>) is
  either a parameter of the model or a definition that is marked as a model of the
  library.
\<close>

subsection \<open>PositionCalculator: \<^verbatim>\<open>compute_text_position\<close>\<close>

text \<open>
  \<^verbatim>\<open>compute_text_position(img_size, text_size, position, margin=16)\<close>: a chain of
  \<^verbatim>\<open>if position == ...: return ...\<close> and a final \<^verbatim>\<open>return\<close> that no test guards.
  Python's \<^verbatim>\<open>//\<close> on integers rounds to minus infinity, as \<open>div\<close> on \<^typ>\<open>int\<close> does.
\<close>

definition default_margin :: int where
  "default_margin = 16"

definition compute_text_position :: "int \<times> int \<Rightarrow> int \<times> int \<Rightarrow> string \<Rightarrow> int \<Rightarrow> int \<times> int" where
  "compute_text_position img_size text_size position margin =
     (let (img_w, img_h) = img_size;
          (text_w, text_h) = text_size
      in if position = ''top-left'' then (margin, margin)
         else if position = ''top-right'' then (img_w - text_w - margin, margin)
         else if position = ''center'' then ((img_w - text_w) div 2, (img_h - text_h) div 2)
         else if position = ''bottom-left'' then (margin, img_h - text_h - margin)
         else (img_w - text_w - margin, img_h - text_h - margin))"

subsection \<open>Paths: a model of \<^verbatim>\<open>pathlib.PurePosixPath\<close>\<close>

text \<open>
  A path is its anchor (empty for a relative path, one or two slashes otherwise) and the
  list of its components. The operations below are the ones of \<^verbatim>\<open>pathlib\<close> that the
  program uses: the constructor from a string, \<^verbatim>\<open>name\<close>, \<^verbatim>\<open>parent\<close>, \<^verbatim>\<open>suffix\<close>,
  \<^verbatim>\<open>stem\<close>, the operator \<^verbatim>\<open>/\<close>, \<^verbatim>\<open>relative_to\<close> and \<^verbatim>\<open>str\<close>.
\<close>

type_synonym exn = string

datatype path = Path (anchor: string) (parts: "string list")

fun split_sep :: "char \<Rightarrow> string \<Rightarrow> string list" where
  "split_sep c [] = [[]]"
| "split_sep c (x # xs) =
     (if x = c then [] # split_sep c xs
      else (case split_sep c xs of [] \<Rightarrow> [[x]] | w # ws \<Rightarrow> (x # w) # ws))"

definition path_of_string :: "string \<Rightarrow> path" where
  "path_of_string s =
     Path (if prefix ''//'' s \<and> \<not> prefix ''///'' s then ''//''
           else if prefix ''/'' s then ''/'' else [])
          (filter (\<lambda>seg. seg \<noteq> [] \<and> seg \<noteq> ''.'') (split_sep CHR ''/'' s))"

definition path_name :: "path \<Rightarrow> string" where
  "path_name p = (if parts p = [] then [] else last (parts p))"

definition path_parent :: "path \<Rightarrow> path" where
  "path_parent p = (if parts p = [] then p else Path (anchor p) (butlast (parts p)))"

text \<open>\<^verbatim>\<open>p / q\<close> for a path \<open>q\<close>: an anchored right operand replaces the left one.\<close>

definition joinpath :: "path \<Rightarrow> path \<Rightarrow> path" where
  "joinpath p q = (if anchor q \<noteq> [] then q else Path (anchor p) (parts p @ parts q))"

text \<open>\<^verbatim>\<open>p / s\<close> for a string \<open>s\<close>: the string is parsed as a path first.\<close>

definition joinpath_str :: "path \<Rightarrow> string \<Rightarrow> path" where
  "joinpath_str p s = joinpath p (path_of_string s)"

text \<open>\<^verbatim>\<open>str.rfind\<close> of one character: the last index where it occurs, \<open>-1\<close> if none.\<close>

fun rfind :: "char \<Rightarrow> string \<Rightarrow> int" where
  "rfind c [] = - 1"
| "rfind c (x # xs) =
     (let r = rfind c xs in if 0 \<le> r then r + 1 else if x = c then 0 else - 1)"

definition path_suffix :: "path \<Rightarrow> string" where
  "path_suffix p =
     (let name = path_name p; i = rfind CHR ''.'' name
      in if 0 < i \<and> i < int (length name) - 1 then drop (nat i) name else [])"

definition path_stem :: "path \<Rightarrow> string" where
  "path_stem p =
     (let name = path_name p; i = rfind CHR ''.'' name
      in if 0 < i \<and> i < int (length name) - 1 then take (nat i) name else name)"

fun join_sep :: "string \<Rightarrow> string list \<Rightarrow> string" where
  "join_sep sep [] = []"
| "join_sep sep [x] = x"
| "join_sep sep (x # y # ys) = x @ sep @ join_sep sep (y # ys)"

definition path_str :: "path \<Rightarrow> string" where
  "path_str p =
     (if anchor p = [] \<and> parts p = [] then ''.'' else anchor p @ join_sep ''/'' (parts p))"

definition relative_to :: "path \<Rightarrow> path \<Rightarrow> exn + path" where
  "relative_to p other =
     (if anchor p = anchor other \<and> prefix (parts other) (parts p)
      then Inr (Path [] (drop (length (parts other)) (parts p)))
      else Inl (path_str p @ '' is not in the subpath of '' @ path_str other))"

text \<open>
  \<^verbatim>\<open>str.lower\<close> on the characters a \<^typ>\<open>char\<close> can hold (Latin-1): the letters A to Z
  and the accented capitals, the multiplication sign apart.
\<close>

definition lower_char :: "char \<Rightarrow> char" where
  "lower_char c =
     (let n = (of_char c :: nat)
      in if (65 \<le> n \<and> n \<le> 90) \<or> (192 \<le> n \<and> n \<le> 222 \<and> n \<noteq> 215)
         then char_of (n + 32) else c)"

definition lower :: "string \<Rightarrow> string" where
  "lower s = map lower_char s"


subsection \<open>Dates: a model of \<^verbatim>\<open>datetime.strptime\<close> and \<^verbatim>\<open>strftime\<close>\<close>

text \<open>
  A \<^verbatim>\<open>datetime\<close> without its microseconds and time zone, which the program never reads.
\<close>

record datetime =
  year :: nat
  month :: nat
  day :: nat
  hour :: nat
  minute :: nat
  second :: nat

definition is_digit :: "char \<Rightarrow> bool" where
  "is_digit c \<longleftrightarrow> 48 \<le> (of_char c :: nat) \<and> (of_char c :: nat) \<le> 57"

definition digit_val :: "char \<Rightarrow> nat" where
  "digit_val c = of_char c - 48"

text \<open>The characters that \<^verbatim>\<open>\s\<close> matches in a \<^verbatim>\<open>str\<close> pattern, among those of Latin-1.\<close>

definition is_space :: "char \<Rightarrow> bool" where
  "is_space c \<longleftrightarrow>
     (let n = (of_char c :: nat)
      in (9 \<le> n \<and> n \<le> 13) \<or> (28 \<le> n \<and> n \<le> 32) \<or> n = 133 \<or> n = 160)"

text \<open>
  \<^verbatim>\<open>strptime\<close> turns the format into a regular expression: a directive becomes a group
  of alternatives, a run of white space becomes \<^verbatim>\<open>\s+\<close>, any other character stands for
  itself (letters without regard to case). The directives modelled are the six that the
  program's formats use; any other one is reported as a bad directive.
\<close>

datatype token = Dir char | Ws | Lit char

fun tokenize :: "string \<Rightarrow> exn + token list" where
  "tokenize [] = Inr []"
| "tokenize [c] =
     (if c = CHR ''%'' then Inl ''stray % in format''
      else Inr [if is_space c then Ws else Lit c])"
| "tokenize (c # d # cs) =
     (if c = CHR ''%'' then
        (if d \<in> set ''YmdHMS'' then
           (case tokenize cs of Inl e \<Rightarrow> Inl e | Inr ts \<Rightarrow> Inr (Dir d # ts))
         else Inl (d # '' is a bad directive in format''))
      else if is_space c then
        (case tokenize (d # cs) of
           Inl e \<Rightarrow> Inl e
         | Inr ts \<Rightarrow> Inr (case ts of Ws # _ \<Rightarrow> ts | _ \<Rightarrow> Ws # ts))
      else
        (case tokenize (d # cs) of Inl e \<Rightarrow> Inl e | Inr ts \<Rightarrow> Inr (Lit c # ts)))"

text \<open>
  The ways a group can match at the head of the input, in the order the regular
  expression tries them: the value read and the rest of the input.
\<close>

definition two_digits :: "(nat \<Rightarrow> nat \<Rightarrow> bool) \<Rightarrow> string \<Rightarrow> (nat \<times> string) list" where
  "two_digits ok s =
     (case s of
        a # b # rest \<Rightarrow>
          if is_digit a \<and> is_digit b \<and> ok (digit_val a) (digit_val b)
          then [(10 * digit_val a + digit_val b, rest)] else []
      | _ \<Rightarrow> [])"

definition one_digit :: "(nat \<Rightarrow> bool) \<Rightarrow> string \<Rightarrow> (nat \<times> string) list" where
  "one_digit ok s =
     (case s of
        a # rest \<Rightarrow> if is_digit a \<and> ok (digit_val a) then [(digit_val a, rest)] else []
      | _ \<Rightarrow> [])"

definition alternatives :: "char \<Rightarrow> string \<Rightarrow> (nat \<times> string) list" where
  "alternatives d s =
     (if d = CHR ''Y'' then
        (case s of
           a # b # c # e # rest \<Rightarrow>
             if is_digit a \<and> is_digit b \<and> is_digit c \<and> is_digit e
             then [(1000 * digit_val a + 100 * digit_val b + 10 * digit_val c + digit_val e, rest)]
             else []
         | _ \<Rightarrow> [])
      else if d = CHR ''m'' then
        two_digits (\<lambda>a b. (a = 1 \<and> b \<le> 2) \<or> (a = 0 \<and> 1 \<le> b)) s @ one_digit (\<lambda>a. 1 \<le> a) s
      else if d = CHR ''d'' then
        two_digits (\<lambda>a b. (a = 3 \<and> b \<le> 1) \<or> (1 \<le> a \<and> a \<le> 2) \<or> (a = 0 \<and> 1 \<le> b)) s
          @ one_digit (\<lambda>a. 1 \<le> a) s
          @ (case s of sp # rest \<Rightarrow> if sp = CHR '' '' then one_digit (\<lambda>a. 1 \<le> a) rest else []
             | [] \<Rightarrow> [])
      else if d = CHR ''H'' then
        two_digits (\<lambda>a b. (a = 2 \<and> b \<le> 3) \<or> a \<le> 1) s @ one_digit (\<lambda>a. True) s
      else if d = CHR ''M'' then
        two_digits (\<lambda>a b. a \<le> 5) s @ one_digit (\<lambda>a. True) s
      else if d = CHR ''S'' then
        two_digits (\<lambda>a b. (a = 6 \<and> b \<le> 1) \<or> a \<le> 5) s @ one_digit (\<lambda>a. True) s
      else [])"

text \<open>\<^verbatim>\<open>\s+\<close> is greedy: the longest run of white space first, then the shorter ones.\<close>

fun ws_rests :: "string \<Rightarrow> string list" where
  "ws_rests [] = []"
| "ws_rests (c # cs) = (if is_space c then ws_rests cs @ [cs] else [])"

text \<open>All the matches of a token list on a prefix of the input, the preferred one first.\<close>

fun matches :: "token list \<Rightarrow> string \<Rightarrow> (char \<times> nat) list \<Rightarrow> ((char \<times> nat) list \<times> string) list" where
  "matches [] s found = [(found, s)]"
| "matches (Lit c # ts) s found =
     (case s of
        [] \<Rightarrow> []
      | x # rest \<Rightarrow> if lower_char x = lower_char c then matches ts rest found else [])"
| "matches (Ws # ts) s found = concat (map (\<lambda>rest. matches ts rest found) (ws_rests s))"
| "matches (Dir d # ts) s found =
     concat (map (\<lambda>(v, rest). matches ts rest (found @ [(d, v)])) (alternatives d s))"

definition is_leap :: "nat \<Rightarrow> bool" where
  "is_leap y \<longleftrightarrow> y mod 4 = 0 \<and> (y mod 100 \<noteq> 0 \<or> y mod 400 = 0)"

definition days_in_month :: "nat \<Rightarrow> nat \<Rightarrow> nat" where
  "days_in_month y m =
     (if m = 2 then (if is_leap y then 29 else 28)
      else if m \<in> {4, 6, 9, 11} then 30 else 31)"

text \<open>What the constructor of \<^verbatim>\<open>datetime\<close> accepts; every \<^verbatim>\<open>datetime\<close> object satisfies it.\<close>

definition valid_datetime :: "datetime \<Rightarrow> bool" where
  "valid_datetime dt \<longleftrightarrow>
     1 \<le> year dt \<and> year dt \<le> 9999 \<and> 1 \<le> month dt \<and> month dt \<le> 12 \<and>
     1 \<le> day dt \<and> day dt \<le> days_in_month (year dt) (month dt) \<and>
     hour dt \<le> 23 \<and> minute dt \<le> 59 \<and> second dt \<le> 59"

definition field :: "(char \<times> nat) list \<Rightarrow> char \<Rightarrow> nat \<Rightarrow> nat" where
  "field found d dflt = (case map_of found d of None \<Rightarrow> dflt | Some v \<Rightarrow> v)"

text \<open>
  \<^verbatim>\<open>datetime.strptime(data_string, format)\<close>; every \<open>Inl\<close> is a \<^verbatim>\<open>ValueError\<close>. The first
  match of the expression is taken, input left over after it is an error, and the fields
  must make a date and a time that exist.
\<close>

definition strptime :: "string \<Rightarrow> string \<Rightarrow> exn + datetime" where
  "strptime data_string format =
     (case tokenize format of
        Inl e \<Rightarrow> Inl e
      | Inr ts \<Rightarrow>
          (case matches ts data_string [] of
             [] \<Rightarrow> Inl (''time data '' @ data_string @ '' does not match format '' @ format)
           | (found, rest) # _ \<Rightarrow>
               if rest \<noteq> [] then Inl (''unconverted data remains: '' @ rest)
               else
                 (let dt = \<lparr>year = field found CHR ''Y'' 1900, month = field found CHR ''m'' 1,
                            day = field found CHR ''d'' 1, hour = field found CHR ''H'' 0,
                            minute = field found CHR ''M'' 0, second = field found CHR ''S'' 0\<rparr>
                  in if valid_datetime dt then Inr dt
                     else Inl ''date or time value out of range'')))"

text \<open>Decimal digits of a natural number, and \<^verbatim>\<open>str.zfill\<close>.\<close>

fun str_nat :: "nat \<Rightarrow> string" where
  "str_nat n =
     (if n < 10 then [''0123456789'' ! n]
      else str_nat (n div 10) @ [''0123456789'' ! (n mod 10)])"

declare str_nat.simps [simp del]

definition str_int :: "int \<Rightarrow> string" where
  "str_int i = (if i < 0 then CHR ''-'' # str_nat (nat (- i)) else str_nat (nat i))"

definition zfill :: "nat \<Rightarrow> string \<Rightarrow> string" where
  "zfill w s = replicate (w - length s) CHR ''0'' @ s"

text \<open>
  \<^verbatim>\<open>format_date\<close>: \<^verbatim>\<open>date.strftime("%Y-%m-%d")\<close>, with the year in four digits and the
  month and the day in two, zero-filled, as the documentation of \<^verbatim>\<open>strftime\<close> gives them.
\<close>

definition format_date :: "datetime \<Rightarrow> string" where
  "format_date date =
     zfill 4 (str_nat (year date)) @ ''-'' @ zfill 2 (str_nat (month date))
       @ ''-'' @ zfill 2 (str_nat (day date))"


subsection \<open>Images, fonts, arguments, the outside world\<close>

text \<open>
  The values of an Exif dictionary: text, bytes, or a number (what \<^verbatim>\<open>str\<close> makes of a
  number is its decimal form). A key of the program's \<^verbatim>\<open>tag_map\<close> is the name that
  \<^verbatim>\<open>ExifTags.TAGS\<close> gives a tag, or the tag itself when the table has none.
\<close>

datatype exif_value = Text string | Bytes "nat list" | Num int

datatype tag_key = Name string | Tag int

datatype font = TrueType string int | DefaultFont

datatype draw_call = DrawText (dc_at: "int \<times> int") (dc_text: string) (dc_font: font) (dc_fill: "int list")

text \<open>
  An image: its size and mode, what \<^verbatim>\<open>getexif()\<close> gives for it (the items of the
  dictionary, or the exception it raises), and the text layers composited onto it.
\<close>

record image =
  img_size :: "int \<times> int"
  img_mode :: string
  img_exif :: "exn + (int \<times> exif_value) list"
  img_layers :: "draw_call list list"

record args =
  args_font_size :: int
  args_color :: string
  args_position :: string
  args_opacity :: int
  args_font_path :: "string option"

text \<open>
  What the program leaves behind: the directories \<^verbatim>\<open>mkdir\<close> was asked for, the files
  saved (with the image and the quality given), and the lines printed.
\<close>

record world =
  made_dirs :: "path list"
  written :: "(path \<times> image \<times> int option) list"
  stderr :: "string list"
  stdout :: "string list"

text \<open>
  The behaviour of the file system and of Pillow, a parameter of the model: each function
  that can raise returns a sum. \<open>os_stat_mtime\<close> is
  \<^verbatim>\<open>datetime.fromtimestamp(path.stat().st_mtime)\<close>; \<open>utf8_decode\<close> is
  \<^verbatim>\<open>bytes.decode("utf-8", errors="ignore")\<close>; \<open>os_walk\<close> is the sequence of triples that
  \<^verbatim>\<open>os.walk\<close> yields.
\<close>

record lib =
  exif_tags :: "int \<Rightarrow> string option"
  utf8_decode :: "nat list \<Rightarrow> exn + string"
  os_exists :: "path \<Rightarrow> bool"
  os_is_file :: "path \<Rightarrow> bool"
  os_walk :: "path \<Rightarrow> (string \<times> string list \<times> string list) list"
  os_stat_mtime :: "path \<Rightarrow> exn + datetime"
  os_mkdir :: "path \<Rightarrow> exn + unit"
  pil_open :: "path \<Rightarrow> exn + image"
  pil_truetype :: "string \<Rightarrow> int \<Rightarrow> exn + font"
  pil_textbbox :: "font \<Rightarrow> string \<Rightarrow> exn + (int \<times> int \<times> int \<times> int)"
  pil_getrgb :: "string \<Rightarrow> exn + int list"
  pil_draw_text :: "draw_call \<Rightarrow> exn + unit"
  pil_save :: "image \<Rightarrow> path \<Rightarrow> int option \<Rightarrow> exn + unit"

subsection \<open>DateResolver: \<^verbatim>\<open>get_exif_datetime\<close> and \<^verbatim>\<open>get_file_mtime\<close>\<close>

text \<open>The dictionary comprehension that builds \<^verbatim>\<open>tag_map\<close>: a later item replaces an earlier one with the same key.\<close>

definition tag_map :: "(int \<Rightarrow> string option) \<Rightarrow> (int \<times> exif_value) list \<Rightarrow> (tag_key \<rightharpoonup> exif_value)" where
  "tag_map tags items =
     fold (\<lambda>(tag, v) m. m((case tags tag of Some n \<Rightarrow> Name n | None \<Rightarrow> Tag tag) \<mapsto> v))
       items Map.empty"

text \<open>Python's truth value: an empty string, empty bytes and zero are false.\<close>

fun truthy :: "exif_value \<Rightarrow> bool" where
  "truthy (Text s) = (s \<noteq> [])"
| "truthy (Bytes b) = (b \<noteq> [])"
| "truthy (Num i) = (i \<noteq> 0)"

text \<open>
  The head of the loop over the keys: \<^verbatim>\<open>tag_map.get(key)\<close>, the test \<^verbatim>\<open>if not value\<close>,
  the decoding of bytes and \<^verbatim>\<open>str(value)\<close>. \<open>None\<close> is the \<^verbatim>\<open>continue\<close>.
\<close>

definition key_text :: "lib \<Rightarrow> (tag_key \<rightharpoonup> exif_value) \<Rightarrow> string \<Rightarrow> string option" where
  "key_text lb m key =
     (case m (Name key) of
        None \<Rightarrow> None
      | Some v \<Rightarrow>
          if \<not> truthy v then None
          else (case v of
                  Text s \<Rightarrow> Some s
                | Bytes b \<Rightarrow> (case utf8_decode lb b of Inl e \<Rightarrow> None | Inr s \<Rightarrow> Some s)
                | Num i \<Rightarrow> Some (str_int i)))"

definition date_keys :: "string list" where
  "date_keys = [''DateTimeOriginal'', ''DateTimeDigitized'', ''DateTime'']"

definition date_formats :: "string list" where
  "date_formats = [''%Y:%m:%d %H:%M:%S'', ''%Y-%m-%d %H:%M:%S'', ''%Y:%m:%d'', ''%Y-%m-%d'']"

text \<open>The loop over the formats: the first \<^verbatim>\<open>strptime\<close> that does not raise returns.\<close>

fun fmt_loop :: "string \<Rightarrow> string list \<Rightarrow> datetime option" where
  "fmt_loop s [] = None"
| "fmt_loop s (fmt # fmts) =
     (case strptime s fmt of Inr dt \<Rightarrow> Some dt | Inl e \<Rightarrow> fmt_loop s fmts)"

text \<open>The loop over the keys: a key whose value no format parses is left for the next key.\<close>

fun key_loop :: "lib \<Rightarrow> (tag_key \<rightharpoonup> exif_value) \<Rightarrow> string list \<Rightarrow> datetime option" where
  "key_loop lb m [] = None"
| "key_loop lb m (key # keys) =
     (case key_text lb m key of
        None \<Rightarrow> key_loop lb m keys
      | Some s \<Rightarrow>
          (case fmt_loop s date_formats of
             Some dt \<Rightarrow> Some dt
           | None \<Rightarrow> key_loop lb m keys))"

definition get_exif_datetime :: "lib \<Rightarrow> image \<Rightarrow> datetime option" where
  "get_exif_datetime lb im =
     (case img_exif im of
        Inl e \<Rightarrow> None
      | Inr exif \<Rightarrow>
          if exif = [] then None
          else key_loop lb (tag_map (exif_tags lb) exif) date_keys)"

definition get_file_mtime :: "lib \<Rightarrow> path \<Rightarrow> exn + datetime" where
  "get_file_mtime lb p = os_stat_mtime lb p"

text \<open>
  Lines 119 to 121 of \<^verbatim>\<open>process_image_file\<close>: the date of the metadata, or else the
  time of the last modification.
\<close>

definition resolve_date :: "lib \<Rightarrow> image \<Rightarrow> path \<Rightarrow> exn + datetime" where
  "resolve_date lb im input_file =
     (case get_exif_datetime lb im of
        None \<Rightarrow> get_file_mtime lb input_file
      | Some date_dt \<Rightarrow> Inr date_dt)"

subsection \<open>Compositor: \<^verbatim>\<open>load_font\<close> and \<^verbatim>\<open>draw_watermark\<close>\<close>

definition load_font :: "lib \<Rightarrow> string option \<Rightarrow> int \<Rightarrow> font" where
  "load_font lb font_path font_size =
     (case font_path of
        None \<Rightarrow> DefaultFont
      | Some fp \<Rightarrow>
          if fp = [] then DefaultFont
          else (case pil_truetype lb fp font_size of Inl e \<Rightarrow> DefaultFont | Inr f \<Rightarrow> f))"

text \<open>
  \<^verbatim>\<open>draw_watermark\<close>. The text layer is the list of the calls of \<^verbatim>\<open>draw.text\<close>;
  \<^verbatim>\<open>alpha_composite\<close> adds it to the layers of the image.
\<close>

definition draw_watermark :: "lib \<Rightarrow> image \<Rightarrow> string \<Rightarrow> string \<Rightarrow> int \<Rightarrow> string \<Rightarrow> font \<Rightarrow> exn + image" where
  "draw_watermark lb image0 text color opacity position fnt0 =
     (let image1 = (if img_mode image0 \<noteq> ''RGBA'' then image0\<lparr>img_mode := ''RGBA''\<rparr> else image0)
      in case pil_textbbox lb fnt0 text of
           Inl e \<Rightarrow> Inl e
         | Inr (b0, b1, b2, b3) \<Rightarrow>
             (let text_w = b2 - b0;
                  text_h = b3 - b1;
                  (x, y) = compute_text_position (img_size image1) (text_w, text_h) position
                             default_margin;
                  fill_color = (case pil_getrgb lb color of Inl e \<Rightarrow> [255, 255, 255] | Inr c \<Rightarrow> c);
                  fill1 = fill_color @ [max 0 (min 255 opacity)];
                  shadow_offset = 2;
                  shadow = DrawText (x + shadow_offset, y + shadow_offset) text fnt0
                             [0, 0, 0, min 255 opacity];
                  primary = DrawText (x, y) text fnt0 fill1
              in case pil_draw_text lb shadow of
                   Inl e \<Rightarrow> Inl e
                 | Inr u \<Rightarrow>
                     (case pil_draw_text lb primary of
                        Inl e \<Rightarrow> Inl e
                      | Inr u' \<Rightarrow> Inr (image1\<lparr>img_layers := img_layers image1 @ [[shadow, primary]]\<rparr>))))"

subsection \<open>BatchWalker: \<^verbatim>\<open>find_output_dir\<close> and \<^verbatim>\<open>is_image_file\<close>\<close>

text \<open>
  \<^verbatim>\<open>input_path.is_file()\<close> asks the file system; the answer is the parameter \<open>is_file\<close>.
\<close>

definition find_output_dir :: "(path \<Rightarrow> bool) \<Rightarrow> path \<Rightarrow> path" where
  "find_output_dir is_file input_path =
     (let base_dir = (if is_file input_path then path_parent input_path else input_path)
      in joinpath_str base_dir (path_name base_dir @ ''_watermark''))"

definition is_image_file :: "path \<Rightarrow> bool" where
  "is_image_file p \<longleftrightarrow>
     lower (path_suffix p) \<in> {''.jpg'', ''.jpeg'', ''.png'', ''.bmp'', ''.tiff'', ''.webp''}"

text \<open>
  The output file name that \<^verbatim>\<open>process_image_file\<close> computes in its local variables
  \<^verbatim>\<open>ext\<close> and \<^verbatim>\<open>out_name\<close>.
\<close>

definition out_name :: "path \<Rightarrow> string" where
  "out_name input_file =
     (let ext = lower (path_suffix input_file)
      in path_stem input_file @ ''_wm'' @ (if ext = ''.png'' then ''.png'' else ''.jpg''))"


definition dotted_files :: "path \<Rightarrow> bool" where
  "dotted_files p \<longleftrightarrow> CHR ''.'' \<in> set (path_name p)"


subsection \<open>FileProcessor: \<^verbatim>\<open>process_image_file\<close>\<close>

text \<open>
  The body of the \<^verbatim>\<open>try\<close>: the first step that raises ends it, and the world keeps what
  the steps before it did. \<^verbatim>\<open>convert("RGB")\<close> sets the mode.
\<close>

definition try_body :: "lib \<Rightarrow> path \<Rightarrow> path \<Rightarrow> args \<Rightarrow> world \<Rightarrow> (exn + path) \<times> world" where
  "try_body lb input_file output_dir a w =
     (case pil_open lb input_file of
        Inl e \<Rightarrow> (Inl e, w)
      | Inr im \<Rightarrow>
          (case resolve_date lb im input_file of
             Inl e \<Rightarrow> (Inl e, w)
           | Inr date_dt \<Rightarrow>
               (let text = format_date date_dt;
                    fnt0 = load_font lb (args_font_path a) (args_font_size a)
                in case draw_watermark lb im text (args_color a) (args_opacity a)
                          (args_position a) fnt0 of
                     Inl e \<Rightarrow> (Inl e, w)
                   | Inr out_rgba \<Rightarrow>
                       (case os_mkdir lb output_dir of
                          Inl e \<Rightarrow> (Inl e, w)
                        | Inr u \<Rightarrow>
                            (let w1 = w\<lparr>made_dirs := made_dirs w @ [output_dir]\<rparr>;
                                 target = joinpath_str output_dir (out_name input_file)
                             in if suffix ''.jpg'' (lower (out_name input_file))
                                   \<or> suffix ''.jpeg'' (lower (out_name input_file))
                                then
                                  (let out_img = out_rgba\<lparr>img_mode := ''RGB''\<rparr>
                                   in case pil_save lb out_img target (Some 92) of
                                        Inl e \<Rightarrow> (Inl e, w1)
                                      | Inr u' \<Rightarrow>
                                          (Inr target,
                                           w1\<lparr>written := written w1 @ [(target, out_img, Some 92)]\<rparr>))
                                else
                                  (case pil_save lb out_rgba target None of
                                     Inl e \<Rightarrow> (Inl e, w1)
                                   | Inr u' \<Rightarrow>
                                       (Inr target,
                                        w1\<lparr>written := written w1 @ [(target, out_rgba, None)]\<rparr>)))))))"

text \<open>The \<^verbatim>\<open>except Exception as e\<close>: one line on the diagnostic stream, and \<^verbatim>\<open>None\<close>.\<close>

definition failure_line :: "path \<Rightarrow> exn \<Rightarrow> string" where
  "failure_line input_file e = ''Failed to process '' @ path_str input_file @ '': '' @ e"

definition process_image_file :: "lib \<Rightarrow> path \<Rightarrow> path \<Rightarrow> args \<Rightarrow> world \<Rightarrow> path option \<times> world" where
  "process_image_file lb input_file output_dir a w =
     (case try_body lb input_file output_dir a w of
        (Inr p, w') \<Rightarrow> (Some p, w')
      | (Inl e, w') \<Rightarrow> (None, w'\<lparr>stderr := stderr w' @ [failure_line input_file e]\<rparr>))"

subsection \<open>BatchWalker: \<^verbatim>\<open>main\<close>\<close>

text \<open>
  The inner loop of the directory mode, over the file names of one directory; the state is
  the counter \<^verbatim>\<open>processed\<close> and the world. A \<^verbatim>\<open>Path\<close> is always true, so the test of
  the result is a test for \<^verbatim>\<open>None\<close>.
\<close>

fun files_loop :: "lib \<Rightarrow> args \<Rightarrow> path \<Rightarrow> path \<Rightarrow> path \<Rightarrow> string list \<Rightarrow> nat \<times> world \<Rightarrow> nat \<times> world" where
  "files_loop lb a root_path output_dir rel [] st = st"
| "files_loop lb a root_path output_dir rel (name # names) (processed, w) =
     (let p = joinpath_str root_path name
      in if is_image_file p then
           (let out_dir = joinpath output_dir rel
            in case process_image_file lb p out_dir a w of
                 (Some q, w') \<Rightarrow> files_loop lb a root_path output_dir rel names (processed + 1, w')
               | (None, w') \<Rightarrow> files_loop lb a root_path output_dir rel names (processed, w'))
         else files_loop lb a root_path output_dir rel names (processed, w))"

text \<open>
  The outer loop, over the triples that \<^verbatim>\<open>os.walk\<close> yields. \<^verbatim>\<open>relative_to\<close> raises when
  the root is not below the input path, and nothing catches it.
\<close>

fun walk_loop :: "lib \<Rightarrow> args \<Rightarrow> path \<Rightarrow> path \<Rightarrow> (string \<times> string list \<times> string list) list \<Rightarrow> nat \<times> world \<Rightarrow> (exn + nat) \<times> world" where
  "walk_loop lb a input_path output_dir [] (processed, w) = (Inr processed, w)"
| "walk_loop lb a input_path output_dir ((root, dirs, files) # rest) (processed, w) =
     (let root_path = path_of_string root
      in case relative_to root_path input_path of
           Inl e \<Rightarrow> (Inl e, w)
         | Inr rel \<Rightarrow>
             walk_loop lb a input_path output_dir rest
               (files_loop lb a root_path output_dir rel files (processed, w)))"

datatype outcome = Exit int | Uncaught exn

definition done_line :: "nat \<Rightarrow> path \<Rightarrow> string" where
  "done_line processed output_dir =
     ''Done. Processed '' @ str_nat processed @ '' image(s). Output: '' @ path_str output_dir"

definition main :: "lib \<Rightarrow> args \<Rightarrow> string \<Rightarrow> world \<Rightarrow> outcome \<times> world" where
  "main lb a arg_input_path w =
     (let input_path = path_of_string arg_input_path
      in if \<not> os_exists lb input_path then
           (Exit 1, w\<lparr>stderr := stderr w @ [''Input path not found: '' @ path_str input_path]\<rparr>)
         else
           (let output_dir = find_output_dir (os_is_file lb) input_path
            in if os_is_file lb input_path then
                 (if is_image_file input_path then
                    (case process_image_file lb input_path output_dir a w of
                       (Some q, w') \<Rightarrow> (Exit 0, w'\<lparr>stdout := stdout w' @ [done_line 1 output_dir]\<rparr>)
                     | (None, w') \<Rightarrow> (Exit 0, w'\<lparr>stdout := stdout w' @ [done_line 0 output_dir]\<rparr>))
                  else
                    (Exit 0,
                     w\<lparr>stderr := stderr w @ [''Not an image file: '' @ path_str input_path],
                       stdout := stdout w @ [done_line 0 output_dir]\<rparr>))
               else
                 (case walk_loop lb a input_path output_dir (os_walk lb input_path) (0, w) of
                    (Inr processed, w') \<Rightarrow>
                      (Exit 0, w'\<lparr>stdout := stdout w' @ [done_line processed output_dir]\<rparr>)
                  | (Inl e, w') \<Rightarrow> (Uncaught e, w'))))"

subsection \<open>A sample environment\<close>

text \<open>
  One file system and one Pillow for the concrete examples: a directory \<^verbatim>\<open>input\<close> that
  holds \<^verbatim>\<open>a.jpg\<close> (with two dates in its metadata), \<^verbatim>\<open>broken.jpg\<close> (which does not
  decode), \<^verbatim>\<open>notes.txt\<close>, and a directory \<^verbatim>\<open>sub\<close> with \<^verbatim>\<open>b.png\<close> (without metadata).
  Every file was last modified on 4 July 2022 at noon; no font file loads; the default font
  draws a character in 6 by 11 pixels; the colours known are \<^verbatim>\<open>#FFFFFF\<close> and \<^verbatim>\<open>red\<close>.
\<close>

definition sample_tags :: "int \<Rightarrow> string option" where
  "sample_tags = map_of [(306, ''DateTime''), (36867, ''DateTimeOriginal''),
     (36868, ''DateTimeDigitized''), (271, ''Make'')]"

definition sample_open :: "path \<Rightarrow> exn + image" where
  "sample_open p =
     (if path_name p = ''a.jpg'' then
        Inr \<lparr>img_size = (640, 480), img_mode = ''RGB'',
             img_exif = Inr [(271, Text ''ACME''), (36867, Text ''2020:01:02 10:00:00''),
                             (306, Text ''2021:05:05 00:00:00'')],
             img_layers = []\<rparr>
      else if path_name p = ''b.png'' then
        Inr \<lparr>img_size = (320, 200), img_mode = ''RGBA'', img_exif = Inr [], img_layers = []\<rparr>
      else Inl (''cannot identify image file '' @ path_str p))"

definition sample_getrgb :: "string \<Rightarrow> exn + int list" where
  "sample_getrgb c =
     (if c = ''#FFFFFF'' then Inr [255, 255, 255]
      else if c = ''red'' then Inr [255, 0, 0]
      else Inl (''unknown color specifier: '' @ c))"

definition sample_walk :: "path \<Rightarrow> (string \<times> string list \<times> string list) list" where
  "sample_walk p =
     [(''input'', [''sub''], [''a.jpg'', ''notes.txt'', ''broken.jpg'']),
      (''input/sub'', [], [''b.png''])]"

definition sample_lib :: lib where
  "sample_lib =
     \<lparr>exif_tags = sample_tags,
      utf8_decode = (\<lambda>bs. Inr (map char_of (filter (\<lambda>b. b < 128) bs))),
      os_exists = (\<lambda>p. True),
      os_is_file = dotted_files,
      os_walk = sample_walk,
      os_stat_mtime =
        (\<lambda>p. Inr \<lparr>year = 2022, month = 7, day = 4, hour = 12, minute = 0, second = 0\<rparr>),
      os_mkdir = (\<lambda>p. Inr ()),
      pil_open = sample_open,
      pil_truetype = (\<lambda>fp sz. Inl ''cannot open resource''),
      pil_textbbox = (\<lambda>f t. Inr (0, 0, 6 * int (length t), 11)),
      pil_getrgb = sample_getrgb,
      pil_draw_text = (\<lambda>c. Inr ()),
      pil_save = (\<lambda>im p q. Inr ())\<rparr>"

definition sample_args :: args where
  "sample_args =
     \<lparr>args_font_size = 32, args_color = ''#FFFFFF'', args_position = ''bottom-right'',
      args_opacity = 220, args_font_path = None\<rparr>"

definition empty_world :: world where
  "empty_world = \<lparr>made_dirs = [], written = [], stderr = [], stdout = []\<rparr>"

text \<open>The sample environment with one step that raises: measuring the text, reading the file time, making the directory, saving.\<close>

definition lib_textbbox_fails :: lib where
  "lib_textbbox_fails = sample_lib\<lparr>pil_textbbox := (\<lambda>f t. Inl ''cannot measure text'')\<rparr>"

definition lib_mtime_fails :: lib where
  "lib_mtime_fails = sample_lib\<lparr>os_stat_mtime := (\<lambda>p. Inl ''No such file or directory'')\<rparr>"

definition lib_mkdir_fails :: lib where
  "lib_mkdir_fails = sample_lib\<lparr>os_mkdir := (\<lambda>p. Inl ''Permission denied'')\<rparr>"

definition lib_save_fails :: lib where
  "lib_save_fails = sample_lib\<lparr>pil_save := (\<lambda>im p q. Inl ''No space left on device'')\<rparr>"

definition image_of_exif :: "(int \<times> exif_value) list \<Rightarrow> image" where
  "image_of_exif items =
     \<lparr>img_size = (640, 480), img_mode = ''RGB'', img_exif = Inr items, img_layers = []\<rparr>"

subsection \<open>The date resolver in the spec's words\<close>



section \<open>Properties\<close>

subsection \<open>PositionCalculator\<close>

text \<open>
  C6. With the default margin 16, for every image size \<open>(W, H)\<close> and text size \<open>(w, h)\<close> the
  five anchors give exactly: top-left \<open>(16, 16)\<close>; top-right \<open>(W - w - 16, 16)\<close>; center
  \<open>((W - w) div 2, (H - h) div 2)\<close> with floor division; bottom-left \<open>(16, H - h - 16)\<close>;
  bottom-right \<open>(W - w - 16, H - h - 16)\<close>. The sizes range over all integers and the
  result is the formula's value, so nothing is clamped: a text of 100 by 100 on an image of
  10 by 10 is placed at \<open>(-106, -106)\<close> for bottom-right and at \<open>(-45, -45)\<close> for center.
\<close>

theorem compute_text_position_formulas:
  "compute_text_position (W, H) (w, h) ''top-left'' default_margin = (16, 16)
   \<and> compute_text_position (W, H) (w, h) ''top-right'' default_margin = (W - w - 16, 16)
   \<and> compute_text_position (W, H) (w, h) ''center'' default_margin = ((W - w) div 2, (H - h) div 2)
   \<and> compute_text_position (W, H) (w, h) ''bottom-left'' default_margin = (16, H - h - 16)
   \<and> compute_text_position (W, H) (w, h) ''bottom-right'' default_margin = (W - w - 16, H - h - 16)
   \<and> compute_text_position (10, 10) (100, 100) ''bottom-right'' default_margin = (- 106, - 106)
   \<and> compute_text_position (10, 10) (100, 100) ''center'' default_margin = (- 45, - 45)"
  by (simp add: compute_text_position_def default_margin_def)

text \<open>
  C10. \<^verbatim>\<open>compute_text_position\<close> is total on position strings: every string other than
  \<^verbatim>\<open>"top-left"\<close>, \<^verbatim>\<open>"top-right"\<close>, \<^verbatim>\<open>"center"\<close> and \<^verbatim>\<open>"bottom-left"\<close> gives the
  bottom-right coordinates \<open>(W - w - margin, H - h - margin)\<close>.
\<close>

theorem compute_text_position_fallthrough:
  assumes "position \<notin> {''top-left'', ''top-right'', ''center'', ''bottom-left''}"
  shows "compute_text_position (W, H) (w, h) position margin = (W - w - margin, H - h - margin)"
  using assms by (simp add: compute_text_position_def)

theorem compute_text_position_fallthrough_witness:
  "''middle'' \<notin> {''top-left'', ''top-right'', ''center'', ''bottom-left''}
   \<and> compute_text_position (640, 480) (100, 20) ''middle'' 16 = (524, 444)"
  using compute_text_position_fallthrough [of "''middle''" 640 480 100 20 16] by simp

subsection \<open>Paths\<close>








subsection \<open>The output root\<close>






subsection \<open>The output file name\<close>



subsection \<open>Compositor\<close>


lemma draw_watermark_getrgb_cong:
  assumes "(case pil_getrgb lb col of Inl e \<Rightarrow> [255, 255, 255] | Inr c \<Rightarrow> c)
         = (case pil_getrgb lb' col of Inl e \<Rightarrow> [255, 255, 255] | Inr c \<Rightarrow> c)"
    and "pil_textbbox lb = pil_textbbox lb'" and "pil_draw_text lb = pil_draw_text lb'"
  shows "draw_watermark lb im txt col opa pos fnt = draw_watermark lb' im txt col opa pos fnt"
  unfolding draw_watermark_def assms by (rule refl)

text \<open>
  C9. When the colour string does not parse (\<^verbatim>\<open>ImageColor.getrgb\<close> raises), nothing is
  raised for it: \<^verbatim>\<open>draw_watermark\<close> does what it would do had the colour parsed to
  \<open>(255, 255, 255)\<close>, and when it returns an image the primary text was drawn in white,
  with the clamped opacity as its alpha.
\<close>

theorem unparseable_color_is_white:
  assumes "pil_getrgb lb col = Inl e"
  shows "draw_watermark lb im txt col opa pos fnt
           = draw_watermark (lb\<lparr>pil_getrgb := \<lambda>c. Inr [255, 255, 255]\<rparr>) im txt col opa pos fnt
         \<and> (\<forall>im'. draw_watermark lb im txt col opa pos fnt = Inr im' \<longrightarrow>
               dc_fill (last (last (img_layers im'))) = [255, 255, 255, max 0 (min 255 opa)])"
proof
  show "draw_watermark lb im txt col opa pos fnt
           = draw_watermark (lb\<lparr>pil_getrgb := \<lambda>c. Inr [255, 255, 255]\<rparr>) im txt col opa pos fnt"
    by (rule draw_watermark_getrgb_cong) (simp_all add: assms)
  show "\<forall>im'. draw_watermark lb im txt col opa pos fnt = Inr im' \<longrightarrow>
               dc_fill (last (last (img_layers im'))) = [255, 255, 255, max 0 (min 255 opa)]"
    using assms
    by (auto simp: draw_watermark_def Let_def split: sum.splits prod.splits if_splits)
qed

theorem unparseable_color_is_white_witness:
  "pil_getrgb sample_lib ''no-such-colour'' = Inl ''unknown color specifier: no-such-colour''
   \<and> draw_watermark sample_lib (image_of_exif []) ''2020-01-02'' ''no-such-colour'' 220 ''top-left'' DefaultFont
     = Inr \<lparr>img_size = (640, 480), img_mode = ''RGBA'', img_exif = Inr [],
            img_layers = [[DrawText (18, 18) ''2020-01-02'' DefaultFont [0, 0, 0, 220],
                           DrawText (16, 16) ''2020-01-02'' DefaultFont [255, 255, 255, 220]]]\<rparr>"
proof -
  have a: "pil_getrgb sample_lib ''no-such-colour'' = Inl ''unknown color specifier: no-such-colour''"
    by (simp add: sample_lib_def sample_getrgb_def)
  show ?thesis
    using a unparseable_color_is_white [OF a, of "image_of_exif []" "''2020-01-02''" 220 "''top-left''" DefaultFont]
    by (simp add: draw_watermark_def sample_lib_def image_of_exif_def
      compute_text_position_def default_margin_def)
qed

subsection \<open>DateResolver\<close>












subsection \<open>The fallback and the display of the date\<close>









lemma str_nat_nonempty: "str_nat n \<noteq> []"
  by (subst str_nat.simps) simp








subsection \<open>FileProcessor and BatchWalker\<close>

lemma process_failure:
  "fst (try_body lb f d a w) = Inl e \<Longrightarrow>
   process_image_file lb f d a w =
     (None, (snd (try_body lb f d a w))\<lparr>stderr := stderr (snd (try_body lb f d a w)) @ [failure_line f e]\<rparr>)"
  by (cases "try_body lb f d a w") (simp add: process_image_file_def)

lemma try_body_keeps:
  "stderr (snd (try_body lb f d a w)) = stderr w \<and> stdout (snd (try_body lb f d a w)) = stdout w"
  by (simp add: try_body_def Let_def split: sum.splits)

lemma try_body_failure_written:
  "fst (try_body lb f d a w) = Inl e \<Longrightarrow> written (snd (try_body lb f d a w)) = written w"
  by (auto simp: try_body_def Let_def split: sum.splits if_splits)

lemma try_body_success:
  "try_body lb f d a w = (Inr q, w') \<Longrightarrow>
   q = joinpath_str d (out_name f) \<and> (\<exists>img ql. written w' = written w @ [(q, img, ql)])
   \<and> stderr w' = stderr w"
  by (auto simp: try_body_def Let_def split: sum.splits if_splits)

lemma process_None:
  "process_image_file lb f d a w = (None, w') \<Longrightarrow>
   (\<exists>e. stderr w' = stderr w @ [failure_line f e]) \<and> written w' = written w \<and> stdout w' = stdout w"
proof -
  assume p: "process_image_file lb f d a w = (None, w')"
  obtain r w1 where t: "try_body lb f d a w = (r, w1)"
    by (cases "try_body lb f d a w")
  with p obtain e where r: "r = Inl e" and w': "w' = w1\<lparr>stderr := stderr w1 @ [failure_line f e]\<rparr>"
    by (cases r) (auto simp: process_image_file_def)
  from t r have "fst (try_body lb f d a w) = Inl e" by simp
  from try_body_failure_written [OF this] try_body_keeps [of lb f d a w] t w'
  show ?thesis by auto
qed

lemma process_Some:
  "process_image_file lb f d a w = (Some q, w') \<Longrightarrow>
   q = joinpath_str d (out_name f) \<and> (\<exists>img ql. written w' = written w @ [(q, img, ql)])
   \<and> stderr w' = stderr w"
proof -
  assume p: "process_image_file lb f d a w = (Some q, w')"
  obtain r w1 where t: "try_body lb f d a w = (r, w1)"
    by (cases "try_body lb f d a w")
  with p have "r = Inr q" and "w' = w1"
    by (cases r; auto simp: process_image_file_def)+
  with t show ?thesis
    using try_body_success [of lb f d a w q w'] by blast
qed


lemma try_body_fst_world:
  "fst (try_body lb f d a w) = fst (try_body lb f d a w0)"
  by (simp add: try_body_def Let_def split: sum.splits)

lemma process_fst_world:
  "fst (process_image_file lb f d a w) = fst (process_image_file lb f d a w0)"
proof -
  have "fst (process_image_file lb f d a w) =
        (case fst (try_body lb f d a w) of Inl e \<Rightarrow> None | Inr p \<Rightarrow> Some p)" for w
    by (cases "try_body lb f d a w") (simp add: process_image_file_def split: sum.splits)
  then show ?thesis
    using try_body_fst_world [of lb f d a w w0] by simp
qed

lemma process_written_mono:
  "set (written w) \<subseteq> set (written (snd (process_image_file lb f d a w)))"
proof (cases "process_image_file lb f d a w")
  case (Pair r w')
  then show ?thesis
    using process_None [of lb f d a w w'] process_Some [of lb f d a w _ w']
    by (cases r) auto
qed

lemma files_loop_mono:
  "set (written w) \<subseteq> set (written (snd (files_loop lb a root_path out rel names (n, w))))"
proof (induction names arbitrary: n w)
  case Nil
  then show ?case by simp
next
  case (Cons x names)
  show ?case
  proof (cases "is_image_file (joinpath_str root_path x)")
    case False
    then show ?thesis using Cons.IH by simp
  next
    case True
    obtain r w1 where p: "process_image_file lb (joinpath_str root_path x) (joinpath out rel) a w = (r, w1)"
      by (cases "process_image_file lb (joinpath_str root_path x) (joinpath out rel) a w")
    have m: "set (written w) \<subseteq> set (written w1)"
      using process_written_mono [of w lb "joinpath_str root_path x" "joinpath out rel" a] p by simp
    show ?thesis
    proof (cases r)
      case None
      with True p have "files_loop lb a root_path out rel (x # names) (n, w)
          = files_loop lb a root_path out rel names (n, w1)"
        by simp
      with m Cons.IH [of w1 n] show ?thesis by auto
    next
      case (Some q)
      with True p have "files_loop lb a root_path out rel (x # names) (n, w)
          = files_loop lb a root_path out rel names (n + 1, w1)"
        by simp
      with m Cons.IH [of w1 "n + 1"] show ?thesis by auto
    qed
  qed
qed

lemma files_loop_member:
  assumes "name \<in> set names" and "is_image_file (joinpath_str root_path name)"
    and "fst (process_image_file lb (joinpath_str root_path name) (joinpath out rel) a w0) = Some q"
  shows "q \<in> fst ` set (written (snd (files_loop lb a root_path out rel names (n, w))))"
  using assms(1)
proof (induction names arbitrary: n w)
  case Nil
  then show ?case by simp
next
  case (Cons x names)
  obtain r w1 where p: "process_image_file lb (joinpath_str root_path x) (joinpath out rel) a w = (r, w1)"
    by (cases "process_image_file lb (joinpath_str root_path x) (joinpath out rel) a w")
  show ?case
  proof (cases "x = name")
    case True
    have "r = Some q"
      using p assms(3) process_fst_world [of lb "joinpath_str root_path name" "joinpath out rel" a w w0] True
      by simp
    with p have "q \<in> fst ` set (written w1)"
      using process_Some [of lb "joinpath_str root_path x" "joinpath out rel" a w q w1] by force
    moreover have "files_loop lb a root_path out rel (x # names) (n, w)
          = files_loop lb a root_path out rel names (n + 1, w1)"
      using True assms(2) p \<open>r = Some q\<close> by simp
    ultimately show ?thesis
      using files_loop_mono [of w1 lb a root_path out rel names "n + 1"] by auto
  next
    case False
    with Cons.prems have mem: "name \<in> set names" by simp
    show ?thesis
    proof (cases "is_image_file (joinpath_str root_path x)")
      case False
      then show ?thesis using Cons.IH [OF mem] by simp
    next
      case True
      then show ?thesis
        using p Cons.IH [OF mem, of n w1] Cons.IH [OF mem, of "n + 1" w1]
        by (cases r) simp_all
    qed
  qed
qed

lemma walk_loop_mono:
  "set (written w) \<subseteq> set (written (snd (walk_loop lb a input_path out triples (n, w))))"
proof (induction triples arbitrary: n w)
  case Nil
  then show ?case by simp
next
  case (Cons t triples)
  obtain root dirs files where t: "t = (root, dirs, files)"
    by (cases t)
  show ?case
  proof (cases "relative_to (path_of_string root) input_path")
    case (Inl e)
    then show ?thesis by (simp add: t)
  next
    case (Inr rel)
    obtain n1 w1 where f: "files_loop lb a (path_of_string root) out rel files (n, w) = (n1, w1)"
      by (cases "files_loop lb a (path_of_string root) out rel files (n, w)")
    have "set (written w) \<subseteq> set (written w1)"
      using files_loop_mono [of w lb a "path_of_string root" out rel files n] f by simp
    then show ?thesis
      using Cons.IH [of w1 n1] Inr f by (auto simp: t)
  qed
qed

lemma walk_loop_member:
  assumes "(root, dirs, files) \<in> set triples" and "name \<in> set files"
    and "is_image_file (joinpath_str (path_of_string root) name)"
  shows "walk_loop lb a input_path out triples (n, w) = (Inr n', w') \<Longrightarrow>
         \<exists>rel. relative_to (path_of_string root) input_path = Inr rel \<and>
           (\<forall>q. fst (process_image_file lb (joinpath_str (path_of_string root) name)
                        (joinpath out rel) a w0) = Some q \<longrightarrow>
                q \<in> fst ` set (written w'))"
  using assms(1)
proof (induction triples arbitrary: n w)
  case Nil
  then show ?case by simp
next
  case (Cons t triples)
  obtain r ds fs where t: "t = (r, ds, fs)"
    by (cases t)
  from Cons.prems(1) obtain rel0 where rel0: "relative_to (path_of_string r) input_path = Inr rel0"
    by (cases "relative_to (path_of_string r) input_path") (auto simp: t)
  obtain n1 w1 where f: "files_loop lb a (path_of_string r) out rel0 fs (n, w) = (n1, w1)"
    by (cases "files_loop lb a (path_of_string r) out rel0 fs (n, w)")
  have rest: "walk_loop lb a input_path out triples (n1, w1) = (Inr n', w')"
    using Cons.prems(1) rel0 f by (simp add: t)
  show ?case
  proof (cases "(root, dirs, files) = t")
    case True
    then have eq: "r = root" "fs = files" by (simp_all add: t)
    have "\<forall>q. fst (process_image_file lb (joinpath_str (path_of_string root) name)
                        (joinpath out rel0) a w0) = Some q \<longrightarrow> q \<in> fst ` set (written w')"
    proof (intro allI impI)
      fix q
      assume "fst (process_image_file lb (joinpath_str (path_of_string root) name)
                        (joinpath out rel0) a w0) = Some q"
      then have "q \<in> fst ` set (written w1)"
        using files_loop_member [OF assms(2) assms(3), of lb out rel0 a w0 q n w] f eq by simp
      moreover have "set (written w1) \<subseteq> set (written w')"
        using walk_loop_mono [of w1 lb a input_path out triples n1] rest by simp
      ultimately show "q \<in> fst ` set (written w')" by auto
    qed
    with rel0 eq show ?thesis by auto
  next
    case False
    with Cons.prems(2) have "(root, dirs, files) \<in> set triples" by simp
    from Cons.IH [OF rest this] show ?thesis .
  qed
qed


text \<open>
  C3. Whatever step of \<^verbatim>\<open>process_image_file\<close> raises (opening and decoding the file,
  resolving the date, composing the watermark, making the output directory, encoding and
  saving), the function does not raise: it prints the line
  \<^verbatim>\<open>Failed to process <path>: <error>\<close> on the diagnostic stream and returns \<^verbatim>\<open>None\<close>, and
  no file is written. In the loop over the files of a directory such a file leaves the
  counter of processed files as it was, and the loop goes on with the files after it.
\<close>

theorem process_image_file_isolates_failures:
  "(fst (try_body lb f d a w) = Inl e \<longrightarrow>
      process_image_file lb f d a w =
        (None, (snd (try_body lb f d a w))
                 \<lparr>stderr := stderr w @ [''Failed to process '' @ path_str f @ '': '' @ e]\<rparr>)
      \<and> written (snd (try_body lb f d a w)) = written w)
   \<and> (pil_open lb f = Inl e \<longrightarrow> try_body lb f d a w = (Inl e, w))
   \<and> (pil_open lb f = Inr im \<longrightarrow> resolve_date lb im f = Inl e \<longrightarrow>
        try_body lb f d a w = (Inl e, w))
   \<and> (pil_open lb f = Inr im \<longrightarrow> resolve_date lb im f = Inr dt \<longrightarrow>
        draw_watermark lb im (format_date dt) (args_color a) (args_opacity a) (args_position a)
          (load_font lb (args_font_path a) (args_font_size a)) = Inl e \<longrightarrow>
        try_body lb f d a w = (Inl e, w))
   \<and> (pil_open lb f = Inr im \<longrightarrow> resolve_date lb im f = Inr dt \<longrightarrow>
        draw_watermark lb im (format_date dt) (args_color a) (args_opacity a) (args_position a)
          (load_font lb (args_font_path a) (args_font_size a)) = Inr out_rgba \<longrightarrow>
        os_mkdir lb d = Inl e \<longrightarrow>
        try_body lb f d a w = (Inl e, w))
   \<and> (pil_open lb f = Inr im \<longrightarrow> resolve_date lb im f = Inr dt \<longrightarrow>
        draw_watermark lb im (format_date dt) (args_color a) (args_opacity a) (args_position a)
          (load_font lb (args_font_path a) (args_font_size a)) = Inr out_rgba \<longrightarrow>
        os_mkdir lb d = Inr () \<longrightarrow>
        (\<forall>img ql. pil_save lb img (joinpath_str d (out_name f)) ql = Inl e) \<longrightarrow>
        try_body lb f d a w = (Inl e, w\<lparr>made_dirs := made_dirs w @ [d]\<rparr>))
   \<and> (fst (process_image_file lb f d a w) = None \<longrightarrow>
        written (snd (process_image_file lb f d a w)) = written w
        \<and> (\<exists>e'. stderr (snd (process_image_file lb f d a w))
                  = stderr w @ [''Failed to process '' @ path_str f @ '': '' @ e']))
   \<and> (is_image_file (joinpath_str root_path name) \<longrightarrow>
        fst (process_image_file lb (joinpath_str root_path name) (joinpath output_dir rel) a w) = None \<longrightarrow>
        files_loop lb a root_path output_dir rel (name # names) (n, w)
          = files_loop lb a root_path output_dir rel names
              (n, snd (process_image_file lb (joinpath_str root_path name) (joinpath output_dir rel) a w)))"
proof (intro conjI impI)
  assume t: "fst (try_body lb f d a w) = Inl e"
  show "process_image_file lb f d a w =
        (None, (snd (try_body lb f d a w))
                 \<lparr>stderr := stderr w @ [''Failed to process '' @ path_str f @ '': '' @ e]\<rparr>)"
    using process_failure [OF t] try_body_keeps [of lb f d a w]
    by (simp add: failure_line_def)
  show "written (snd (try_body lb f d a w)) = written w"
    by (rule try_body_failure_written [OF t])
next
  assume "pil_open lb f = Inl e"
  then show "try_body lb f d a w = (Inl e, w)"
    by (simp add: try_body_def)
next
  assume "pil_open lb f = Inr im" and "resolve_date lb im f = Inl e"
  then show "try_body lb f d a w = (Inl e, w)"
    by (simp add: try_body_def)
next
  assume "pil_open lb f = Inr im" and "resolve_date lb im f = Inr dt"
    and "draw_watermark lb im (format_date dt) (args_color a) (args_opacity a) (args_position a)
          (load_font lb (args_font_path a) (args_font_size a)) = Inl e"
  then show "try_body lb f d a w = (Inl e, w)"
    by (simp add: try_body_def)
next
  assume "pil_open lb f = Inr im" and "resolve_date lb im f = Inr dt"
    and "draw_watermark lb im (format_date dt) (args_color a) (args_opacity a) (args_position a)
          (load_font lb (args_font_path a) (args_font_size a)) = Inr out_rgba"
    and "os_mkdir lb d = Inl e"
  then show "try_body lb f d a w = (Inl e, w)"
    by (simp add: try_body_def)
next
  assume "pil_open lb f = Inr im" and "resolve_date lb im f = Inr dt"
    and "draw_watermark lb im (format_date dt) (args_color a) (args_opacity a) (args_position a)
          (load_font lb (args_font_path a) (args_font_size a)) = Inr out_rgba"
    and "os_mkdir lb d = Inr ()"
    and "\<forall>img ql. pil_save lb img (joinpath_str d (out_name f)) ql = Inl e"
  then show "try_body lb f d a w = (Inl e, w\<lparr>made_dirs := made_dirs w @ [d]\<rparr>)"
    by (simp add: try_body_def Let_def)
next
  assume n: "fst (process_image_file lb f d a w) = None"
  then have p: "process_image_file lb f d a w = (None, snd (process_image_file lb f d a w))"
    by (cases "process_image_file lb f d a w") simp
  from process_None [OF p]
  show "written (snd (process_image_file lb f d a w)) = written w"
    by simp
  from process_None [OF p]
  show "\<exists>e'. stderr (snd (process_image_file lb f d a w))
                  = stderr w @ [''Failed to process '' @ path_str f @ '': '' @ e']"
    by (simp add: failure_line_def)
next
  assume "is_image_file (joinpath_str root_path name)"
    and "fst (process_image_file lb (joinpath_str root_path name) (joinpath output_dir rel) a w) = None"
  then show "files_loop lb a root_path output_dir rel (name # names) (n, w)
          = files_loop lb a root_path output_dir rel names
              (n, snd (process_image_file lb (joinpath_str root_path name) (joinpath output_dir rel) a w))"
    by (cases "process_image_file lb (joinpath_str root_path name) (joinpath output_dir rel) a w") simp
qed


theorem process_image_file_isolates_failures_witness:
  "pil_open sample_lib (Path [] [''input'', ''broken.jpg''])
     = Inl ''cannot identify image file input/broken.jpg''
   \<and> process_image_file sample_lib (Path [] [''input'', ''broken.jpg''])
        (Path [] [''input'', ''input_watermark'']) sample_args empty_world
      = (None, empty_world\<lparr>stderr :=
           [''Failed to process input/broken.jpg: cannot identify image file input/broken.jpg'']\<rparr>)
   \<and> process_image_file lib_mtime_fails (Path [] [''input'', ''sub'', ''b.png''])
        (Path [] [''input'', ''input_watermark'', ''sub'']) sample_args empty_world
      = (None, empty_world\<lparr>stderr :=
           [''Failed to process input/sub/b.png: No such file or directory'']\<rparr>)
   \<and> process_image_file lib_textbbox_fails (Path [] [''input'', ''a.jpg''])
        (Path [] [''input'', ''input_watermark'']) sample_args empty_world
      = (None, empty_world\<lparr>stderr := [''Failed to process input/a.jpg: cannot measure text'']\<rparr>)
   \<and> process_image_file lib_mkdir_fails (Path [] [''input'', ''a.jpg''])
        (Path [] [''input'', ''input_watermark'']) sample_args empty_world
      = (None, empty_world\<lparr>stderr := [''Failed to process input/a.jpg: Permission denied'']\<rparr>)
   \<and> process_image_file lib_save_fails (Path [] [''input'', ''a.jpg''])
        (Path [] [''input'', ''input_watermark'']) sample_args empty_world
      = (None, empty_world\<lparr>made_dirs := [Path [] [''input'', ''input_watermark'']],
           stderr := [''Failed to process input/a.jpg: No space left on device'']\<rparr>)
   \<and> files_loop sample_lib sample_args (Path [] [''input'']) (Path [] [''input'', ''input_watermark''])
        (Path [] []) [''broken.jpg'', ''a.jpg''] (0, empty_world)
      = files_loop sample_lib sample_args (Path [] [''input'']) (Path [] [''input'', ''input_watermark''])
          (Path [] []) [''a.jpg'']
          (0, empty_world\<lparr>stderr :=
             [''Failed to process input/broken.jpg: cannot identify image file input/broken.jpg'']\<rparr>)
   \<and> fst (files_loop sample_lib sample_args (Path [] [''input''])
             (Path [] [''input'', ''input_watermark'']) (Path [] [])
             [''broken.jpg'', ''a.jpg''] (0, empty_world)) = 1"
proof -
  let ?broken = "Path [] [''input'', ''broken.jpg'']"
  let ?a = "Path [] [''input'', ''a.jpg'']"
  let ?b = "Path [] [''input'', ''sub'', ''b.png'']"
  let ?out = "Path [] [''input'', ''input_watermark'']"
  let ?outsub = "Path [] [''input'', ''input_watermark'', ''sub'']"
  let ?ima = "\<lparr>img_size = (640, 480), img_mode = ''RGB'',
       img_exif = Inr [(271, Text ''ACME''), (36867, Text ''2020:01:02 10:00:00''),
                       (306, Text ''2021:05:05 00:00:00'')],
       img_layers = []\<rparr>"
  let ?imb = "\<lparr>img_size = (320, 200), img_mode = ''RGBA'', img_exif = Inr [], img_layers = []\<rparr>"
  let ?dt = "\<lparr>year = 2020, month = 1, day = 2, hour = 10, minute = 0, second = 0\<rparr>"
  let ?drawn = "\<lparr>img_size = (640, 480), img_mode = ''RGBA'',
       img_exif = Inr [(271, Text ''ACME''), (36867, Text ''2020:01:02 10:00:00''),
                       (306, Text ''2021:05:05 00:00:00'')],
       img_layers = [[DrawText (566, 455) ''2020-01-02'' DefaultFont [0, 0, 0, 220],
                      DrawText (564, 453) ''2020-01-02'' DefaultFont [255, 255, 255, 220]]]\<rparr>"
  have logged: "process_image_file lb f d sample_args empty_world
      = (None, w1\<lparr>stderr := [''Failed to process '' @ path_str f @ '': '' @ e]\<rparr>)"
    if "try_body lb f d sample_args empty_world = (Inl e, w1)" for lb f d e w1
    using that process_image_file_isolates_failures [of lb f d sample_args empty_world e]
    by (simp add: empty_world_def)
  have o1: "pil_open sample_lib ?broken = Inl ''cannot identify image file input/broken.jpg''"
    by code_simp
  have t1: "try_body sample_lib ?broken ?out sample_args empty_world
      = (Inl ''cannot identify image file input/broken.jpg'', empty_world)"
    using o1 process_image_file_isolates_failures
      [of sample_lib ?broken ?out sample_args empty_world "''cannot identify image file input/broken.jpg''"]
    by blast
  have p1: "process_image_file sample_lib ?broken ?out sample_args empty_world
      = (None, empty_world\<lparr>stderr :=
           [''Failed to process input/broken.jpg: cannot identify image file input/broken.jpg'']\<rparr>)"
    using logged [OF t1] by (simp add: path_str_def)
  have o2: "pil_open lib_mtime_fails ?b = Inr ?imb"
    and r2: "resolve_date lib_mtime_fails ?imb ?b = Inl ''No such file or directory''"
    by code_simp+
  have t2: "try_body lib_mtime_fails ?b ?outsub sample_args empty_world
      = (Inl ''No such file or directory'', empty_world)"
    using o2 r2 process_image_file_isolates_failures
      [of lib_mtime_fails ?b ?outsub sample_args empty_world "''No such file or directory''" ?imb]
    by blast
  have p2: "process_image_file lib_mtime_fails ?b ?outsub sample_args empty_world
      = (None, empty_world\<lparr>stderr :=
           [''Failed to process input/sub/b.png: No such file or directory'']\<rparr>)"
    using logged [OF t2] by (simp add: path_str_def)
  have o3: "pil_open lib_textbbox_fails ?a = Inr ?ima"
    and r3: "resolve_date lib_textbbox_fails ?ima ?a = Inr ?dt"
    and d3: "draw_watermark lib_textbbox_fails ?ima (format_date ?dt) (args_color sample_args)
          (args_opacity sample_args) (args_position sample_args)
          (load_font lib_textbbox_fails (args_font_path sample_args) (args_font_size sample_args))
        = Inl ''cannot measure text''"
    by code_simp+
  have t3: "try_body lib_textbbox_fails ?a ?out sample_args empty_world
      = (Inl ''cannot measure text'', empty_world)"
    using o3 r3 d3 process_image_file_isolates_failures
      [of lib_textbbox_fails ?a ?out sample_args empty_world "''cannot measure text''" ?ima ?dt]
    by blast
  have p3: "process_image_file lib_textbbox_fails ?a ?out sample_args empty_world
      = (None, empty_world\<lparr>stderr := [''Failed to process input/a.jpg: cannot measure text'']\<rparr>)"
    using logged [OF t3] by (simp add: path_str_def)
  have o4: "pil_open lib_mkdir_fails ?a = Inr ?ima"
    and r4: "resolve_date lib_mkdir_fails ?ima ?a = Inr ?dt"
    and d4: "draw_watermark lib_mkdir_fails ?ima (format_date ?dt) (args_color sample_args)
          (args_opacity sample_args) (args_position sample_args)
          (load_font lib_mkdir_fails (args_font_path sample_args) (args_font_size sample_args))
        = Inr ?drawn"
    and m4: "os_mkdir lib_mkdir_fails ?out = Inl ''Permission denied''"
    by code_simp+
  have t4: "try_body lib_mkdir_fails ?a ?out sample_args empty_world
      = (Inl ''Permission denied'', empty_world)"
    using o4 r4 d4 m4 process_image_file_isolates_failures
      [of lib_mkdir_fails ?a ?out sample_args empty_world "''Permission denied''" ?ima ?dt ?drawn]
    by blast
  have p4: "process_image_file lib_mkdir_fails ?a ?out sample_args empty_world
      = (None, empty_world\<lparr>stderr := [''Failed to process input/a.jpg: Permission denied'']\<rparr>)"
    using logged [OF t4] by (simp add: path_str_def)
  have o5: "pil_open lib_save_fails ?a = Inr ?ima"
    and r5: "resolve_date lib_save_fails ?ima ?a = Inr ?dt"
    and d5: "draw_watermark lib_save_fails ?ima (format_date ?dt) (args_color sample_args)
          (args_opacity sample_args) (args_position sample_args)
          (load_font lib_save_fails (args_font_path sample_args) (args_font_size sample_args))
        = Inr ?drawn"
    and m5: "os_mkdir lib_save_fails ?out = Inr ()"
    by code_simp+
  have s5: "\<forall>img ql. pil_save lib_save_fails img (joinpath_str ?out (out_name ?a)) ql
      = Inl ''No space left on device''"
    by (simp add: lib_save_fails_def)
  have t5: "try_body lib_save_fails ?a ?out sample_args empty_world
      = (Inl ''No space left on device'', empty_world\<lparr>made_dirs := made_dirs empty_world @ [?out]\<rparr>)"
    using o5 r5 d5 m5 s5 process_image_file_isolates_failures
      [of lib_save_fails ?a ?out sample_args empty_world "''No space left on device''" ?ima ?dt ?drawn]
    by blast
  have p5: "process_image_file lib_save_fails ?a ?out sample_args empty_world
      = (None, empty_world\<lparr>made_dirs := [?out],
           stderr := [''Failed to process input/a.jpg: No space left on device'']\<rparr>)"
    using logged [OF t5] by (simp add: path_str_def empty_world_def)
  have j: "joinpath_str (Path [] [''input'']) ''broken.jpg'' = ?broken"
    and jo: "joinpath ?out (Path [] []) = ?out"
    and img: "is_image_file ?broken"
    by code_simp+
  have f6: "files_loop sample_lib sample_args (Path [] [''input'']) ?out (Path [] [])
        [''broken.jpg'', ''a.jpg''] (0, empty_world)
      = files_loop sample_lib sample_args (Path [] [''input'']) ?out (Path [] []) [''a.jpg'']
          (0, empty_world\<lparr>stderr :=
             [''Failed to process input/broken.jpg: cannot identify image file input/broken.jpg'']\<rparr>)"
    using process_image_file_isolates_failures
      [of sample_lib _ _ sample_args empty_world _ _ _ _ "Path [] [''input'']" "''broken.jpg''"
        ?out "Path [] []" "[''a.jpg'']" 0]
      j jo img p1
    by simp
  have c6: "fst (files_loop sample_lib sample_args (Path [] [''input'']) ?out (Path [] [])
        [''broken.jpg'', ''a.jpg''] (0, empty_world)) = 1"
    by code_simp
  show ?thesis
    using o1 p1 p2 p3 p4 p5 f6 c6 by (intro conjI)
qed


text \<open>
  C8. In directory mode, let the walk end without an uncaught exception. For every triple
  \<open>(root, dirs, files)\<close> it yields and every name in \<open>files\<close> with a recognized extension, the
  path of \<open>root\<close> relative to the input path exists, the file is processed into the output
  root joined with that relative path, and when its processing succeeds the file written is
  \<^verbatim>\<open><output root>/<relative path>/<stem>_wm.<ext>\<close> and is among the written files at the
  end. For \<^verbatim>\<open>input/a.jpg\<close> and \<^verbatim>\<open>input/sub/b.png\<close> the output root
  \<^verbatim>\<open>input/input_watermark\<close> receives \<^verbatim>\<open>a_wm.jpg\<close> and \<^verbatim>\<open>sub/b_wm.png\<close>.
\<close>

theorem directory_mode_mirrors:
  "(walk_loop lb a input_path output_dir triples (n, w) = (Inr n', w') \<longrightarrow>
      (root, dirs, files) \<in> set triples \<longrightarrow> name \<in> set files \<longrightarrow>
      is_image_file (joinpath_str (path_of_string root) name) \<longrightarrow>
      (\<exists>rel. relative_to (path_of_string root) input_path = Inr rel \<and>
         (\<forall>q. fst (process_image_file lb (joinpath_str (path_of_string root) name)
                      (joinpath output_dir rel) a w) = Some q \<longrightarrow>
              q = joinpath_str (joinpath output_dir rel)
                    (out_name (joinpath_str (path_of_string root) name))
              \<and> q \<in> fst ` set (written w'))))
   \<and> find_output_dir (os_is_file sample_lib) (path_of_string ''input'')
        = Path [] [''input'', ''input_watermark'']
   \<and> map (\<lambda>(p, im, ql). relative_to p (Path [] [''input'', ''input_watermark'']))
        (written (snd (main sample_lib sample_args ''input'' empty_world)))
      = [Inr (Path [] [''a_wm.jpg'']), Inr (Path [] [''sub'', ''b_wm.png''])]"
proof (intro conjI impI)
  assume wl: "walk_loop lb a input_path output_dir triples (n, w) = (Inr n', w')"
    and mem: "(root, dirs, files) \<in> set triples" "name \<in> set files"
    and img: "is_image_file (joinpath_str (path_of_string root) name)"
  let ?p = "joinpath_str (path_of_string root) name"
  from walk_loop_member [OF mem img wl, of w]
  obtain rel where rel: "relative_to (path_of_string root) input_path = Inr rel"
    and wr: "\<forall>q. fst (process_image_file lb ?p (joinpath output_dir rel) a w) = Some q
                \<longrightarrow> q \<in> fst ` set (written w')"
    by blast
  have "\<forall>q. fst (process_image_file lb ?p (joinpath output_dir rel) a w) = Some q \<longrightarrow>
          q = joinpath_str (joinpath output_dir rel) (out_name ?p) \<and> q \<in> fst ` set (written w')"
  proof (intro allI impI)
    fix q
    assume s: "fst (process_image_file lb ?p (joinpath output_dir rel) a w) = Some q"
    then have "process_image_file lb ?p (joinpath output_dir rel) a w
        = (Some q, snd (process_image_file lb ?p (joinpath output_dir rel) a w))"
      by (cases "process_image_file lb ?p (joinpath output_dir rel) a w") simp
    from process_Some [OF this] wr s
    show "q = joinpath_str (joinpath output_dir rel) (out_name ?p) \<and> q \<in> fst ` set (written w')"
      by blast
  qed
  with rel show "\<exists>rel. relative_to (path_of_string root) input_path = Inr rel \<and>
         (\<forall>q. fst (process_image_file lb ?p (joinpath output_dir rel) a w) = Some q \<longrightarrow>
              q = joinpath_str (joinpath output_dir rel) (out_name ?p)
              \<and> q \<in> fst ` set (written w'))"
    by blast
next
  show "find_output_dir (os_is_file sample_lib) (path_of_string ''input'')
        = Path [] [''input'', ''input_watermark'']"
    by code_simp
next
  show "map (\<lambda>(p, im, ql). relative_to p (Path [] [''input'', ''input_watermark'']))
        (written (snd (main sample_lib sample_args ''input'' empty_world)))
      = [Inr (Path [] [''a_wm.jpg'']), Inr (Path [] [''sub'', ''b_wm.png''])]"
    by code_simp
qed

theorem directory_mode_mirrors_witness:
  "fst (walk_loop sample_lib sample_args (Path [] [''input'']) (Path [] [''input'', ''input_watermark''])
         (os_walk sample_lib (Path [] [''input''])) (0, empty_world)) = Inr 2
   \<and> (''input/sub'', [], [''b.png'']) \<in> set (os_walk sample_lib (Path [] [''input'']))
   \<and> ''b.png'' \<in> set [''b.png'']
   \<and> is_image_file (joinpath_str (path_of_string ''input/sub'') ''b.png'')
   \<and> relative_to (path_of_string ''input/sub'') (Path [] [''input'']) = Inr (Path [] [''sub''])
   \<and> fst (process_image_file sample_lib (joinpath_str (path_of_string ''input/sub'') ''b.png'')
           (joinpath (Path [] [''input'', ''input_watermark'']) (Path [] [''sub'']))
           sample_args empty_world)
      = Some (Path [] [''input'', ''input_watermark'', ''sub'', ''b_wm.png''])
   \<and> Path [] [''input'', ''input_watermark'', ''sub'', ''b_wm.png'']
       \<in> fst ` set (written (snd (walk_loop sample_lib sample_args (Path [] [''input''])
                                  (Path [] [''input'', ''input_watermark''])
                                  (os_walk sample_lib (Path [] [''input''])) (0, empty_world))))"
proof -
  let ?in = "Path [] [''input'']"
  let ?out = "Path [] [''input'', ''input_watermark'']"
  let ?q = "Path [] [''input'', ''input_watermark'', ''sub'', ''b_wm.png'']"
  let ?run = "walk_loop sample_lib sample_args ?in ?out (os_walk sample_lib ?in) (0, empty_world)"
  have r: "fst ?run = Inr 2"
    by code_simp
  then have run: "?run = (Inr 2, snd ?run)"
    by (cases ?run) simp
  have mem: "(''input/sub'', [], [''b.png'']) \<in> set (os_walk sample_lib ?in)"
    by (simp add: sample_lib_def sample_walk_def)
  have img: "is_image_file (joinpath_str (path_of_string ''input/sub'') ''b.png'')"
    and rel: "relative_to (path_of_string ''input/sub'') ?in = Inr (Path [] [''sub''])"
    and ok: "fst (process_image_file sample_lib (joinpath_str (path_of_string ''input/sub'') ''b.png'')
           (joinpath ?out (Path [] [''sub''])) sample_args empty_world) = Some ?q"
    by code_simp+
  have "name \<in> set [name]" for name :: string
    by simp
  with run mem img
  obtain rel' where rel': "relative_to (path_of_string ''input/sub'') ?in = Inr rel'"
    and every: "\<forall>q. fst (process_image_file sample_lib
                      (joinpath_str (path_of_string ''input/sub'') ''b.png'')
                      (joinpath ?out rel') sample_args empty_world) = Some q
                 \<longrightarrow> q \<in> fst ` set (written (snd ?run))"
    using directory_mode_mirrors [of sample_lib sample_args ?in ?out "os_walk sample_lib ?in" 0
        empty_world 2 "snd ?run" "''input/sub''" "[]" "[''b.png'']" "''b.png''"]
    by blast
  from rel rel' have "rel' = Path [] [''sub'']"
    by simp
  with every ok have "?q \<in> fst ` set (written (snd ?run))"
    by blast
  with r mem img rel ok show ?thesis
    by simp
qed

end
